theory Spec2Isabelle
  imports Complex_Main "HOL-Library.Word"
begin

section \<open>The editor scene (src/view/editor\_scene.cpp)\<close>

text \<open>
  The scene is a \<open>QGraphicsScene\<close>: a scene rectangle and a list of graphics items.
  Coordinates are \<open>qreal\<close>, that is doubles; they are modelled as exact reals, so rounding
  is not part of the model. The model and the code compute the same numbers wherever
  every number the code computes is one a double holds exactly; that the loop of
  \<open>adjustSceneRect\<close> returns is stated for such coordinates only.
\<close>

subsection \<open>Rectangles\<close>

text \<open>\<open>QRectF\<close>: the top-left corner \<open>xp, yp\<close> and the extent \<open>w, h\<close> (here \<open>wd, ht\<close>),
  which Qt allows to be negative or zero.\<close>

record qrectf =
  xp :: real
  yp :: real
  wd :: real
  ht :: real

text \<open>\<open>QRectF::adjusted(dx1, dy1, dx2, dy2)\<close> is
  \<open>QRectF(xp + dx1, yp + dy1, w + dx2 - dx1, h + dy2 - dy1)\<close>.\<close>

definition adjusted :: "qrectf \<Rightarrow> real \<Rightarrow> real \<Rightarrow> real \<Rightarrow> real \<Rightarrow> qrectf" where
  "adjusted r dx1 dy1 dx2 dy2 =
     \<lparr>xp = xp r + dx1, yp = yp r + dy1, wd = wd r + dx2 - dx1, ht = ht r + dy2 - dy1\<rparr>"

text \<open>The edges of a rectangle once normalised: a negative extent is read from the other
  corner. These are the locals \<open>l1, r1, t1, b1\<close> (and \<open>l2, r2, t2, b2\<close>) of
  \<open>QRectF::contains\<close>.\<close>

definition normLeft :: "qrectf \<Rightarrow> real" where
  "normLeft r = (if wd r < 0 then xp r + wd r else xp r)"

definition normRight :: "qrectf \<Rightarrow> real" where
  "normRight r = (if wd r < 0 then xp r else xp r + wd r)"

definition normTop :: "qrectf \<Rightarrow> real" where
  "normTop r = (if ht r < 0 then yp r + ht r else yp r)"

definition normBottom :: "qrectf \<Rightarrow> real" where
  "normBottom r = (if ht r < 0 then yp r else yp r + ht r)"

text \<open>\<open>QRectF::contains(const QRectF &)\<close>, as Qt implements it: both rectangles are
  normalised, a rectangle of zero width or height neither contains anything nor is
  contained, and otherwise the bounds are compared, edges included.\<close>

definition contains :: "qrectf \<Rightarrow> qrectf \<Rightarrow> bool" where
  "contains a r =
     (let l1 = normLeft a; r1 = normRight a in
      if l1 = r1 then False
      else
        let l2 = normLeft r; r2 = normRight r in
        if l2 = r2 then False
        else if l2 < l1 \<or> r2 > r1 then False
        else
          let t1 = normTop a; b1 = normBottom a in
          if t1 = b1 then False
          else
            let t2 = normTop r; b2 = normBottom r in
            if t2 = b2 then False
            else if t2 < t1 \<or> b2 > b1 then False
            else True)"

subsection \<open>Items\<close>

text \<open>A node is known to the scene by its index. An item of the scene is a node, an edge
  between a source and a target node, or something else (an edge label, a helper line):
  the three outcomes of the two \<open>dynamic_cast\<close>s. Every item has a bounding rectangle
  in scene coordinates and possibly a graphics effect, which is enabled or not.\<close>

record node =
  index :: int

datatype item_kind =
    NodeItem node
  | EdgeItem (sourceNode: node) (targetNode: node)
  | OtherItem

record scene_item =
  kind :: item_kind
  sceneBoundingRect :: qrectf
  graphicsEffect :: "bool option"

record editor_scene =
  sceneRect :: qrectf
  items :: "scene_item list"

text \<open>The constructor: the scene rectangle is the square of side \<open>2 * m_initialSize\<close>
  around the origin. \<open>m_initialSize\<close> is declared in the header, which is not among the
  sources, so it is a parameter everywhere.\<close>

definition EditorScene :: "real \<Rightarrow> editor_scene" where
  "EditorScene m_initialSize =
     \<lparr>sceneRect = \<lparr>xp = - m_initialSize, yp = - m_initialSize,
                    wd = m_initialSize * 2, ht = m_initialSize * 2\<rparr>,
      items = []\<rparr>"

subsection \<open>hasEdge\<close>

fun hasEdge_loop :: "node \<Rightarrow> node \<Rightarrow> scene_item list \<Rightarrow> bool" where
  "hasEdge_loop node0 node1 [] = False"
| "hasEdge_loop node0 node1 (item # rest) =
     (case kind item of
        EdgeItem src tgt \<Rightarrow>
          if index src = index node0 \<and> index tgt = index node1 then True
          else hasEdge_loop node0 node1 rest
      | _ \<Rightarrow> hasEdge_loop node0 node1 rest)"

definition hasEdge :: "editor_scene \<Rightarrow> node \<Rightarrow> node \<Rightarrow> bool" where
  "hasEdge s node0 node1 = hasEdge_loop node0 node1 (items s)"

subsection \<open>containsAll and adjustSceneRect\<close>

definition isNode :: "scene_item \<Rightarrow> bool" where
  "isNode item = (case kind item of NodeItem n \<Rightarrow> True | _ \<Rightarrow> False)"

text \<open>The test rectangle of \<open>containsAll\<close>: the scene rectangle with a quarter of its
  width and height taken off each side.\<close>

definition testRect :: "qrectf \<Rightarrow> qrectf" where
  "testRect r =
     (let marginFactor = 0.25;
          testMarginX = wd r * marginFactor;
          testMarginY = ht r * marginFactor
      in adjusted r testMarginX testMarginY (- testMarginX) (- testMarginY))"

fun containsAll_loop :: "qrectf \<Rightarrow> scene_item list \<Rightarrow> bool" where
  "containsAll_loop t [] = True"
| "containsAll_loop t (item # rest) =
     (if isNode item \<and> \<not> contains t (sceneBoundingRect item) then False
      else containsAll_loop t rest)"

definition containsAll :: "editor_scene \<Rightarrow> bool" where
  "containsAll s = containsAll_loop (testRect (sceneRect s)) (items s)"

text \<open>One turn of the loop of \<open>adjustSceneRect\<close>.\<close>

definition grow :: "real \<Rightarrow> editor_scene \<Rightarrow> editor_scene" where
  "grow m_initialSize s =
     s\<lparr>sceneRect := adjusted (sceneRect s) (- m_initialSize) (- m_initialSize)
                                      m_initialSize m_initialSize\<rparr>"

text \<open>The loop itself may run forever, so its result is optional: \<open>None\<close> is
  "never returns".\<close>

partial_function (option) adjustSceneRect :: "real \<Rightarrow> editor_scene \<Rightarrow> editor_scene option" where
  "adjustSceneRect m_initialSize s =
     (if \<not> containsAll s then adjustSceneRect m_initialSize (grow m_initialSize s)
      else Some s)"



subsection \<open>Graphics effects and the SVG export\<close>

definition enableGraphicsEffects :: "bool \<Rightarrow> editor_scene \<Rightarrow> editor_scene" where
  "enableGraphicsEffects enable s =
     s\<lparr>items := map (\<lambda>item. case graphicsEffect item of
                                 None \<Rightarrow> item
                               | Some e \<Rightarrow> item\<lparr>graphicsEffect := Some enable\<rparr>)
                      (items s)\<rparr>"

text \<open>\<open>static_cast<int>\<close> of a \<open>qreal\<close> truncates towards zero.\<close>

definition toInt :: "real \<Rightarrow> int" where
  "toInt r = (if r < 0 then \<lceil>r\<rceil> else \<lfloor>r\<rfloor>)"

record svg_generator =
  svgFileName :: string
  svgSize :: "int \<times> int"
  svgViewBox :: "int \<times> int \<times> int \<times> int"
  svgTitle :: string
  svgDescription :: string

text \<open>What a file holds after an export: the generator's settings and the items as they
  were when they were painted, or an incomplete document when painting was cut short.\<close>

datatype file_content =
    SvgFile svg_generator "scene_item list"
  | Incomplete

text \<open>The world outside the scene: the files, which paths can be written, and the two
  constants of \<open>Constants::Application\<close> (not among the sources).\<close>

record world =
  files :: "string \<Rightarrow> file_content option"
  writable :: "string \<Rightarrow> bool"
  applicationName :: string
  applicationVersion :: string

text \<open>An exception that leaves \<open>toSvg\<close>: the function has no handler, so it can only come
  out of \<open>render\<close>, which paints the items.\<close>

datatype exn = RenderFailure

text \<open>\<open>toSvg\<close> is a \<open>void\<close> function: it returns \<open>()\<close> or is left by an exception. Its
  other results are the scene and the world as it leaves them. \<open>painter.begin\<close> opens
  the file and fails, with a result the code does not read, when the path cannot be
  written; painting then draws nothing. \<open>renderThrows\<close> says whether painting throws.\<close>

definition toSvg ::
  "bool \<Rightarrow> world \<Rightarrow> editor_scene \<Rightarrow> string \<Rightarrow> string \<Rightarrow> (exn + unit) \<times> editor_scene \<times> world" where
  "toSvg renderThrows env s filename ttl =
     (let s1 = enableGraphicsEffects False s;
          width = toInt (wd (sceneRect s1));
          height = toInt (ht (sceneRect s1));
          generator = \<lparr>svgFileName = filename, svgSize = (width, height),
                       svgViewBox = (0, 0, width, height), svgTitle = ttl,
                       svgDescription = ''SVG exported from '' @ applicationName env @
                                     '' version '' @ applicationVersion env\<rparr>;
          active = writable env filename
      in if renderThrows then
           (Inl RenderFailure, s1,
            if active then env\<lparr>files := (files env)(filename \<mapsto> Incomplete)\<rparr> else env)
         else
           let env' = (if active
                       then env\<lparr>files := (files env)(filename \<mapsto> SvgFile generator (items s1))\<rparr>
                       else env);
               s2 = enableGraphicsEffects True s1
           in (Inr (), s2, env'))"

subsection \<open>The bitmap export\<close>

text \<open>A colour, and a pixel of an image of format ARGB32: four channels of eight bits.\<close>

record qcolor =
  alpha :: "8 word"
  red :: "8 word"
  green :: "8 word"
  blue :: "8 word"

definition transparent :: qcolor where
  "transparent = \<lparr>alpha = 0, red = 0, green = 0, blue = 0\<rparr>"

record qimage =
  imageSize :: "int \<times> int"
  pixels :: "qcolor list"

text \<open>\<open>QImage(size, format)\<close>: a null image when a side is not positive, and otherwise
  \<open>width * height\<close> pixels of uninitialised memory, which \<open>uninit\<close> stands for.\<close>

definition QImage :: "(nat \<Rightarrow> qcolor) \<Rightarrow> int \<times> int \<Rightarrow> qimage" where
  "QImage uninit sz =
     (if fst sz \<le> 0 \<or> snd sz \<le> 0 then \<lparr>imageSize = (0, 0), pixels = []\<rparr>
      else \<lparr>imageSize = sz, pixels = map uninit [0 ..< nat (fst sz * snd sz)]\<rparr>)"

definition fill :: "qcolor \<Rightarrow> qimage \<Rightarrow> qimage" where
  "fill c img = img\<lparr>pixels := map (\<lambda>p. c) (pixels img)\<rparr>"

text \<open>\<open>render\<close> paints the items one after the other; how one item is painted is the
  parameter \<open>paint\<close>.\<close>

definition render :: "(scene_item \<Rightarrow> qimage \<Rightarrow> qimage) \<Rightarrow> editor_scene \<Rightarrow> qimage \<Rightarrow> qimage" where
  "render paint s img = fold paint (items s) img"

definition toImage ::
  "(scene_item \<Rightarrow> qimage \<Rightarrow> qimage) \<Rightarrow> (nat \<Rightarrow> qcolor) \<Rightarrow> editor_scene \<Rightarrow>
     int \<times> int \<Rightarrow> qcolor \<Rightarrow> bool \<Rightarrow> qimage" where
  "toImage paint uninit s sz backgroundColor transparentBackground =
     (let img = QImage uninit sz;
          img = fill (if transparentBackground then transparent else backgroundColor) img
      in render paint s img)"

section \<open>The application (src/application/application.cpp)\<close>

text \<open>
  The functions of \<open>Application\<close> call their collaborators (the main window, the
  application service, the settings, the dialogs) and emit actions to the state machine.
  A function is modelled by the list of calls it makes, in order, and by what it does to
  the state of the application service.
\<close>

datatype action =
    MindMapOpened
  | OpeningMindMapFailed
  | OpeningMindMapCanceled
  | BackgroundColorChanged
  | EdgeColorChanged
  | GridColorChanged
  | NodeColorChanged
  | TextColorChanged

datatype role = Background | Edge | Grid | Node | Text

datatype call =
    ShowSpinnerDialog bool string
  | UpdateProgress
  | OpenMindMap string
  | DisableUndoAndRedo
  | SetSaveActionStatesOnOpenedMindMap
  | SaveRecentPath string
  | ExecSceneColorDialog role
  | ClearEdgeSelectionGroup bool
  | ClearNodeSelectionGroup bool
  | Emit action

subsection \<open>Opening a mind map\<close>

text \<open>\<open>ApplicationService::openMindMap\<close> is not among the sources: \<open>opener\<close> stands for
  it, a function of the file name and the state of the service that returns whether the
  file was opened and the state it leaves.\<close>

definition doOpenMindMap ::
  "(string \<Rightarrow> 'svc \<Rightarrow> bool \<times> 'svc) \<Rightarrow> string \<Rightarrow> 'svc \<Rightarrow> call list \<times> 'svc" where
  "doOpenMindMap opener fileName svc =
     (let calls = [ShowSpinnerDialog True (''Opening '' @ [CHR 0x27] @ fileName @ [CHR 0x27] @ ''..''),
                 UpdateProgress];
          (opened, svc') = opener fileName svc;
          calls = calls @ [OpenMindMap fileName]
      in if opened then
           (calls @ [DisableUndoAndRedo, UpdateProgress,
                   SetSaveActionStatesOnOpenedMindMap, UpdateProgress,
                   SaveRecentPath fileName, UpdateProgress,
                   ShowSpinnerDialog False [], UpdateProgress,
                   Emit MindMapOpened], svc')
         else
           (calls @ [ShowSpinnerDialog False [], UpdateProgress,
                   Emit OpeningMindMapFailed], svc'))"

text \<open>Modelled from the spec: \<open>ApplicationService::openMindMap\<close>, which is not among the
  sources. The spec (4.4, 6, 7): the document is loaded through \<open>load(path)\<close>, which gives
  a graph or fails; \<open>openMindMap(path)\<close> returns false on a parse error or a missing
  file, and a failed open leaves the previous document untouched; on success the whole
  graph is replaced.\<close>

definition openMindMap :: "(string \<Rightarrow> 'g option) \<Rightarrow> string \<Rightarrow> 'g \<Rightarrow> bool \<times> 'g" where
  "openMindMap load fileName document =
     (case load fileName of
        None \<Rightarrow> (False, document)
      | Some g \<Rightarrow> (True, g))"

subsection \<open>The colour dialogs\<close>

text \<open>\<open>QDialog::Accepted\<close>; \<open>exec()\<close> returns an \<open>int\<close>.\<close>

definition Accepted :: int where
  "Accepted = 1"

text \<open>The two clearing functions of the application service are not among the sources:
  they are the parameters \<open>clearEdge\<close> and \<open>clearNode\<close>, functions of the flag and the
  state of the service.\<close>

definition showEdgeColorDialog ::
  "(bool \<Rightarrow> 'svc \<Rightarrow> 'svc) \<Rightarrow> int \<Rightarrow> 'svc \<Rightarrow> call list \<times> 'svc" where
  "showEdgeColorDialog clearEdge execResult svc =
     (let calls = [ExecSceneColorDialog Edge] in
      if execResult \<noteq> Accepted then
        (calls @ [ClearEdgeSelectionGroup True, Emit EdgeColorChanged], clearEdge True svc)
      else (calls @ [Emit EdgeColorChanged], svc))"

definition showNodeColorDialog ::
  "(bool \<Rightarrow> 'svc \<Rightarrow> 'svc) \<Rightarrow> int \<Rightarrow> 'svc \<Rightarrow> call list \<times> 'svc" where
  "showNodeColorDialog clearNode execResult svc =
     (let calls = [ExecSceneColorDialog Node] in
      if execResult \<noteq> Accepted then
        (calls @ [ClearNodeSelectionGroup True, Emit NodeColorChanged], clearNode True svc)
      else (calls @ [Emit NodeColorChanged], svc))"

definition showTextColorDialog ::
  "(bool \<Rightarrow> 'svc \<Rightarrow> 'svc) \<Rightarrow> int \<Rightarrow> 'svc \<Rightarrow> call list \<times> 'svc" where
  "showTextColorDialog clearNode execResult svc =
     (let calls = [ExecSceneColorDialog Text] in
      if execResult \<noteq> Accepted then
        (calls @ [ClearNodeSelectionGroup True, Emit TextColorChanged], clearNode True svc)
      else (calls @ [Emit TextColorChanged], svc))"

text \<open>Modelled from the spec: \<open>clearNodeSelectionGroup\<close> and \<open>clearEdgeSelectionGroup\<close> of
  the application service, which are not among the sources. The spec (3, 4.4): a
  selection group is a set of selected nodes or edges; clearing on the cancellation of a
  dialog must only clear groups that were implicitly created by the cancelled action,
  never a selection the user made before; a flag distinguishes implicit from explicit
  clears. With the flag set only an implicit group is cleared; without it the group is
  cleared whatever it is.\<close>

record selection_group =
  members :: "int list"
  implicit :: bool

record selections =
  nodeSelectionGroup :: selection_group
  edgeSelectionGroup :: selection_group

text \<open>Modelled from the spec: clearing one selection group (not among the sources). A forced
  clear (flag true) empties only a group that was created implicitly; an explicit clear
  (flag false) empties the group whatever it is.\<close>

definition clearGroup :: "bool \<Rightarrow> selection_group \<Rightarrow> selection_group" where
  "clearGroup forced g =
     (if forced \<and> \<not> implicit g then g else \<lparr>members = [], implicit = False\<rparr>)"

text \<open>Modelled from the spec: \<open>clearNodeSelectionGroup(flag)\<close> of the application service (not
  among the sources) clears the node selection group in this way.\<close>

definition clearNodeSelectionGroup :: "bool \<Rightarrow> selections \<Rightarrow> selections" where
  "clearNodeSelectionGroup forced sel =
     sel\<lparr>nodeSelectionGroup := clearGroup forced (nodeSelectionGroup sel)\<rparr>"

text \<open>Modelled from the spec: \<open>clearEdgeSelectionGroup(flag)\<close> of the application service (not
  among the sources) clears the edge selection group in this way.\<close>

definition clearEdgeSelectionGroup :: "bool \<Rightarrow> selections \<Rightarrow> selections" where
  "clearEdgeSelectionGroup forced sel =
     sel\<lparr>edgeSelectionGroup := clearGroup forced (edgeSelectionGroup sel)\<rparr>"

section \<open>Undo and redo (src/editor/mediator.hpp)\<close>

text \<open>Modelled from the spec: \<open>saveUndoPoint\<close>, \<open>undo\<close>, \<open>redo\<close>, \<open>isUndoable\<close> and
  \<open>isRedoable\<close> of the mediator, of which only the declarations are among the sources.
  The spec (3, 4.3): the graph maps an index to a node (position, text, colour) and has a
  set of edges between ordered pairs of indices; an undo point is a snapshot of the
  graph. \<open>saveUndoPoint\<close> captures the current graph and pushes it, truncating the redo
  tail; \<open>undo\<close> pops the most recent point, restores it and pushes the state before the
  undo onto the redo side; \<open>redo\<close> is its mirror; \<open>isUndoable\<close> and \<open>isRedoable\<close> say
  whether the respective stack is non-empty. The history is unbounded here.\<close>

record mm_node =
  position :: "real \<times> real"
  text_of :: string
  color :: qcolor

record mm_edge =
  edgeText :: string
  edgeColor :: qcolor

record graph =
  nodes :: "int \<Rightarrow> mm_node option"
  edges :: "int \<times> int \<Rightarrow> mm_edge option"








text \<open>Modelled from the spec: two operations on the graph, for the scenarios of the spec
  (8): adding a node at a position and moving a node.\<close>

definition addNode :: "int \<Rightarrow> real \<times> real \<Rightarrow> graph \<Rightarrow> graph" where
  "addNode i pos g =
     g\<lparr>nodes := (nodes g)(i \<mapsto> \<lparr>position = pos, text_of = [],
                                    color = \<lparr>alpha = 255, red = 255, green = 255, blue = 255\<rparr>\<rparr>)\<rparr>"


section \<open>Concrete scenes\<close>

text \<open>Inputs at which the properties below are evaluated: a node of 200 by 75 at a given
  place, an edge between two indices, a scene with one edge from node 1 to node 0, and a
  scene whose node lies outside the first test rectangle.\<close>

definition nodeItem :: "int \<Rightarrow> real \<Rightarrow> real \<Rightarrow> bool option \<Rightarrow> scene_item" where
  "nodeItem i x y e =
     \<lparr>kind = NodeItem \<lparr>index = i\<rparr>,
      sceneBoundingRect = \<lparr>xp = x, yp = y, wd = 200, ht = 75\<rparr>,
      graphicsEffect = e\<rparr>"

definition edgeItem :: "int \<Rightarrow> int \<Rightarrow> scene_item" where
  "edgeItem i j =
     \<lparr>kind = EdgeItem \<lparr>index = i\<rparr> \<lparr>index = j\<rparr>,
      sceneBoundingRect = \<lparr>xp = 0, yp = 0, wd = 100, ht = 1\<rparr>,
      graphicsEffect = None\<rparr>"

definition edgeScene :: editor_scene where
  "edgeScene = (EditorScene 10000)\<lparr>items := [nodeItem 0 0 0 None, nodeItem 1 100 0 None, edgeItem 1 0]\<rparr>"

definition farScene :: editor_scene where
  "farScene = (EditorScene 10000)\<lparr>items := [edgeItem 0 1, nodeItem 0 6000 0 None]\<rparr>"



text \<open>A scene whose first node has a disabled effect and whose second has an enabled one, a
  world in which one path can be written, and an opaque colour.\<close>

definition effectScene :: editor_scene where
  "effectScene =
     (EditorScene 10000)\<lparr>items := [nodeItem 0 0 0 (Some False), nodeItem 1 300 0 (Some True),
                                    edgeItem 0 1]\<rparr>"

definition desk :: world where
  "desk = \<lparr>files = (\<lambda>p. None), writable = (\<lambda>p. p = ''/home/user/map.svg''),
           applicationName = ''Heimer'', applicationVersion = ''4.0.0''\<rparr>"

definition grey :: qcolor where
  "grey = \<lparr>alpha = 255, red = 128, green = 128, blue = 128\<rparr>"

section \<open>Concrete documents and selections\<close>

text \<open>A disk that holds one readable mind map, a document of two nodes that is open, a
  selection whose node group was made by the user and whose edge group was made
  implicitly, and a selection where it is the other way round.\<close>

definition disk :: "string \<Rightarrow> graph option" where
  "disk path =
     (if path = ''/home/user/plan.alz''
      then Some (addNode 0 (0, 0) \<lparr>nodes = (\<lambda>i. None), edges = (\<lambda>e. None)\<rparr>)
      else None)"

definition draft :: graph where
  "draft = addNode 1 (100, 0) (addNode 0 (0, 0) \<lparr>nodes = (\<lambda>i. None), edges = (\<lambda>e. None)\<rparr>)"

definition picked :: selections where
  "picked = \<lparr>nodeSelectionGroup = \<lparr>members = [0, 1], implicit = False\<rparr>,
             edgeSelectionGroup = \<lparr>members = [2], implicit = True\<rparr>\<rparr>"

definition touched :: selections where
  "touched = \<lparr>nodeSelectionGroup = \<lparr>members = [3], implicit = True\<rparr>,
              edgeSelectionGroup = \<lparr>members = [4, 5], implicit = False\<rparr>\<rparr>"


section \<open>Properties of the scene\<close>

subsection \<open>hasEdge is directional\<close>

lemma hasEdge_loop_iff:
  "hasEdge_loop a b xs \<longleftrightarrow>
     (\<exists>item \<in> set xs. \<exists>src tgt. kind item = EdgeItem src tgt \<and>
        index src = index a \<and> index tgt = index b)"
  by (induction xs) (auto split: item_kind.splits)


text \<open>Claim C2 as stated fails: with a single edge from node 1 to node 0 in the scene,
  the query from node 0 to node 1 is false although the two nodes are joined.\<close>

theorem hasEdge_symmetric_counterexample:
  "hasEdge edgeScene \<lparr>index = 1\<rparr> \<lparr>index = 0\<rparr> \<and> \<not> hasEdge edgeScene \<lparr>index = 0\<rparr> \<lparr>index = 1\<rparr>"
  by (simp add: hasEdge_def edgeScene_def edgeItem_def nodeItem_def EditorScene_def)

text \<open>Claim C2, amended: \<open>hasEdge(a, b)\<close> is true exactly when the scene holds an edge item
  whose source has the index of \<open>a\<close> and whose target has the index of \<open>b\<close>; the query is
  directional, and an edge in either direction is found by asking both ways.\<close>

theorem hasEdge_directed:
  "(hasEdge s a b \<longleftrightarrow>
      (\<exists>item \<in> set (items s). \<exists>src tgt. kind item = EdgeItem src tgt \<and>
         index src = index a \<and> index tgt = index b)) \<and>
   (hasEdge s a b \<or> hasEdge s b a \<longleftrightarrow>
      (\<exists>item \<in> set (items s). \<exists>src tgt. kind item = EdgeItem src tgt \<and>
         (index src = index a \<and> index tgt = index b \<or>
          index src = index b \<and> index tgt = index a)))"
  unfolding hasEdge_def hasEdge_loop_iff by blast

text \<open>The amended claim at the scene with the edge from node 1 to node 0.\<close>

theorem hasEdge_directed_witness:
  "hasEdge edgeScene \<lparr>index = 1\<rparr> \<lparr>index = 0\<rparr> \<and>
   (hasEdge edgeScene \<lparr>index = 0\<rparr> \<lparr>index = 1\<rparr> \<or> hasEdge edgeScene \<lparr>index = 1\<rparr> \<lparr>index = 0\<rparr>)"
  using hasEdge_directed [of edgeScene "\<lparr>index = 1\<rparr>" "\<lparr>index = 0\<rparr>"]
    hasEdge_directed [of edgeScene "\<lparr>index = 0\<rparr>" "\<lparr>index = 1\<rparr>"]
  by (simp add: edgeScene_def edgeItem_def nodeItem_def EditorScene_def)

subsection \<open>The scene rectangle grows until it holds every node\<close>

lemma containsAll_loop_iff:
  "containsAll_loop t xs \<longleftrightarrow> (\<forall>item \<in> set xs. isNode item \<longrightarrow> contains t (sceneBoundingRect item))"
  by (induction xs) auto

lemma contains_iff:
  "contains a r \<longleftrightarrow>
     normLeft a \<noteq> normRight a \<and> normLeft r \<noteq> normRight r \<and>
     normLeft a \<le> normLeft r \<and> normRight r \<le> normRight a \<and>
     normTop a \<noteq> normBottom a \<and> normTop r \<noteq> normBottom r \<and>
     normTop a \<le> normTop r \<and> normBottom r \<le> normBottom a"
  by (auto simp: contains_def Let_def)

lemma grow_funpow_items: "items ((grow S ^^ n) s) = items s"
  by (induction n) (simp_all add: grow_def)

lemma grow_funpow_rect:
  "sceneRect ((grow S ^^ n) s) =
     adjusted (sceneRect s) (- (real n * S)) (- (real n * S)) (real n * S) (real n * S)"
  by (induction n) (simp_all add: grow_def adjusted_def algebra_simps)

lemma adjustSceneRect_reaches:
  "containsAll ((grow S ^^ n) s) \<Longrightarrow>
     \<exists>m \<le> n. adjustSceneRect S s = Some ((grow S ^^ m) s) \<and> containsAll ((grow S ^^ m) s) \<and>
       (\<forall>k < m. \<not> containsAll ((grow S ^^ k) s))"
proof (induction n arbitrary: s)
  case 0
  then have "adjustSceneRect S s = Some s"
    by (simp add: adjustSceneRect.simps)
  with 0 show ?case by simp
next
  case (Suc n)
  show ?case
  proof (cases "containsAll s")
    case True
    then have "adjustSceneRect S s = Some s"
      by (simp add: adjustSceneRect.simps)
    with True show ?thesis by (intro exI [of _ 0]) simp
  next
    case False
    from Suc.prems have "containsAll ((grow S ^^ n) (grow S s))"
      by (simp add: funpow_swap1)
    from Suc.IH [OF this] obtain m where m: "m \<le> n"
      "adjustSceneRect S (grow S s) = Some ((grow S ^^ m) (grow S s))"
      "containsAll ((grow S ^^ m) (grow S s))"
      "\<forall>k < m. \<not> containsAll ((grow S ^^ k) (grow S s))"
      by blast
    from False have "adjustSceneRect S s = adjustSceneRect S (grow S s)"
      by (subst adjustSceneRect.simps) simp
    moreover have "\<forall>k < Suc m. \<not> containsAll ((grow S ^^ k) s)"
    proof (intro allI impI)
      fix k assume "k < Suc m"
      show "\<not> containsAll ((grow S ^^ k) s)"
      proof (cases k)
        case 0
        with False show ?thesis by simp
      next
        case (Suc j)
        with \<open>k < Suc m\<close> m(4) show ?thesis by (simp add: funpow_swap1)
      qed
    qed
    ultimately show ?thesis
      using m by (intro exI [of _ "Suc m"]) (simp add: funpow_swap1)
  qed
qed

lemma arch_mult:
  fixes S M :: real
  assumes "0 < S"
  shows "\<exists>N::nat. \<forall>n \<ge> N. M \<le> real n * S"
proof -
  obtain N :: nat where N: "M / S \<le> real N"
    using real_arch_simple by blast
  have "M \<le> real n * S" if "N \<le> n" for n
  proof -
    have "M / S \<le> real n" using N that by simp
    then show ?thesis using assms by (simp add: pos_divide_le_eq)
  qed
  then show ?thesis by blast
qed

lemma testRect_grown_contains:
  assumes S: "0 < S" and nz: "wd b \<noteq> 0" "ht b \<noteq> 0"
  shows "\<exists>N::nat. \<forall>n \<ge> N.
           contains (testRect (adjusted r (- (real n * S)) (- (real n * S)) (real n * S) (real n * S))) b"
proof -
  define M where "M = Max {1 - wd r / 2, 1 - ht r / 2,
     2 * (xp r + wd r / 4 - normLeft b), 2 * (normRight b - xp r - 3 * wd r / 4),
     2 * (yp r + ht r / 4 - normTop b), 2 * (normBottom b - yp r - 3 * ht r / 4)}"
  obtain N :: nat where N: "\<forall>n \<ge> N. M \<le> real n * S"
    using arch_mult [OF S] by blast
  have "contains (testRect (adjusted r (- (real n * S)) (- (real n * S)) (real n * S) (real n * S))) b"
    if "N \<le> n" for n
  proof -
    define d where "d = real n * S"
    have d: "M \<le> d" using N that by (simp add: d_def)
    have b1: "1 - wd r / 2 \<le> d" and b2: "1 - ht r / 2 \<le> d"
      and b3: "2 * (xp r + wd r / 4 - normLeft b) \<le> d"
      and b4: "2 * (normRight b - xp r - 3 * wd r / 4) \<le> d"
      and b5: "2 * (yp r + ht r / 4 - normTop b) \<le> d"
      and b6: "2 * (normBottom b - yp r - 3 * ht r / 4) \<le> d"
      using d by (simp_all add: M_def)
    let ?t = "testRect (adjusted r (- d) (- d) d d)"
    have w: "wd ?t = (wd r + 2 * d) / 2" and h: "ht ?t = (ht r + 2 * d) / 2"
      and x: "xp ?t = xp r - d + (wd r + 2 * d) / 4" and y: "yp ?t = yp r - d + (ht r + 2 * d) / 4"
      by (simp_all add: testRect_def adjusted_def Let_def field_simps)
    have wpos: "0 < wd ?t" and hpos: "0 < ht ?t"
      using b1 b2 by (simp_all add: w h)
    have nl: "normLeft ?t = xp ?t" and nr: "normRight ?t = xp ?t + wd ?t"
      and nt: "normTop ?t = yp ?t" and nb: "normBottom ?t = yp ?t + ht ?t"
      using wpos hpos by (simp_all add: normLeft_def normRight_def normTop_def normBottom_def)
    have bne: "normLeft b \<noteq> normRight b" "normTop b \<noteq> normBottom b"
      using nz by (simp_all add: normLeft_def normRight_def normTop_def normBottom_def)
    have i1: "xp ?t \<le> normLeft b" using b3 unfolding x by (simp add: field_simps)
    have i2: "normRight b \<le> xp ?t + wd ?t" using b4 unfolding x w by (simp add: field_simps)
    have i3: "yp ?t \<le> normTop b" using b5 unfolding y by (simp add: field_simps)
    have i4: "normBottom b \<le> yp ?t + ht ?t" using b6 unfolding y h by (simp add: field_simps)
    have "contains ?t b"
      unfolding contains_iff nl nr nt nb
      using wpos hpos bne i1 i2 i3 i4 by simp
    then show ?thesis by (simp add: d_def)
  qed
  then show ?thesis by blast
qed

lemma eventually_containsAll_loop:
  assumes S: "0 < S"
    and nz: "\<forall>item \<in> set xs. isNode item \<longrightarrow>
                wd (sceneBoundingRect item) \<noteq> 0 \<and> ht (sceneBoundingRect item) \<noteq> 0"
  shows "\<exists>N::nat. \<forall>n \<ge> N.
           containsAll_loop (testRect (adjusted r (- (real n * S)) (- (real n * S)) (real n * S) (real n * S))) xs"
  using nz
proof (induction xs)
  case Nil
  then show ?case by simp
next
  case (Cons item xs)
  then obtain N1 :: nat where N1: "\<forall>n \<ge> N1.
      containsAll_loop (testRect (adjusted r (- (real n * S)) (- (real n * S)) (real n * S) (real n * S))) xs"
    by auto
  show ?case
  proof (cases "isNode item")
    case False
    with N1 show ?thesis by auto
  next
    case True
    with Cons.prems have "wd (sceneBoundingRect item) \<noteq> 0" "ht (sceneBoundingRect item) \<noteq> 0"
      by simp_all
    from testRect_grown_contains [OF S this] obtain N2 :: nat where N2: "\<forall>n \<ge> N2.
        contains (testRect (adjusted r (- (real n * S)) (- (real n * S)) (real n * S) (real n * S)))
          (sceneBoundingRect item)"
      by blast
    have "\<forall>n \<ge> max N1 N2.
        containsAll_loop (testRect (adjusted r (- (real n * S)) (- (real n * S)) (real n * S) (real n * S))) (item # xs)"
      using N1 N2 by simp
    then show ?thesis by blast
  qed
qed

lemma adjustSceneRect_Some:
  assumes "adjustSceneRect S s = Some s'"
  shows "containsAll s' \<and> items s' = items s"
proof (rule adjustSceneRect.raw_induct
         [where P = "\<lambda>S s s'. containsAll s' \<and> items s' = items s", OF _ assms])
  fix f :: "real \<Rightarrow> editor_scene \<Rightarrow> editor_scene option" and S s s'
  assume IH: "\<And>S s s'. f S s = Some s' \<Longrightarrow> containsAll s' \<and> items s' = items s"
    and eq: "(if \<not> containsAll s then f S (grow S s) else Some s) = Some s'"
  show "containsAll s' \<and> items s' = items s"
  proof (cases "containsAll s")
    case True
    with eq show ?thesis by simp
  next
    case False
    with eq have "f S (grow S s) = Some s'" by simp
    from IH [OF this] show ?thesis by (simp add: grow_def)
  qed
qed






lemma farScene_not_containsAll: "\<not> containsAll farScene"
  by (simp add: containsAll_def farScene_def EditorScene_def nodeItem_def edgeItem_def isNode_def
      testRect_def adjusted_def contains_def normLeft_def normRight_def normTop_def normBottom_def Let_def)

lemma farScene_grow_containsAll: "containsAll (grow 10000 farScene)"
  by (simp add: containsAll_def farScene_def EditorScene_def nodeItem_def edgeItem_def isNode_def grow_def
      testRect_def adjusted_def contains_def normLeft_def normRight_def normTop_def normBottom_def Let_def)

lemma adjustSceneRect_farScene:
  "adjustSceneRect 10000 farScene = Some (grow 10000 farScene)"
  using farScene_not_containsAll farScene_grow_containsAll
  by (simp add: adjustSceneRect.simps [of 10000 farScene]
      adjustSceneRect.simps [of 10000 "grow 10000 farScene"])

lemma adjustSceneRect_returns:
  assumes "0 < S"
    and "\<forall>item \<in> set (items s). isNode item \<longrightarrow>
           wd (sceneBoundingRect item) \<noteq> 0 \<and> ht (sceneBoundingRect item) \<noteq> 0"
  shows "\<exists>n. adjustSceneRect S s = Some ((grow S ^^ n) s) \<and>
           containsAll ((grow S ^^ n) s) \<and>
           (\<forall>k < n. \<not> containsAll ((grow S ^^ k) s))"
proof -
  from eventually_containsAll_loop [OF assms, of "sceneRect s"] obtain N :: nat where
    "containsAll_loop (testRect (adjusted (sceneRect s) (- (real N * S)) (- (real N * S))
        (real N * S) (real N * S))) (items s)"
    by blast
  then have "containsAll ((grow S ^^ N) s)"
    by (simp add: containsAll_def grow_funpow_rect grow_funpow_items)
  from adjustSceneRect_reaches [OF this] show ?thesis
    by blast
qed













text \<open>Claim C4: when \<open>adjustSceneRect\<close> returns, every node item is contained in the test
  rectangle of the final scene rectangle, which is that rectangle with a quarter of its
  width and height taken off each side; the items themselves are unchanged. And it does
  return, for a positive increment and nodes whose bounding rectangles are not empty.\<close>

theorem adjustSceneRect_postcondition:
  "(adjustSceneRect S s = Some s' \<longrightarrow>
      (\<forall>item \<in> set (items s'). isNode item \<longrightarrow>
         contains (testRect (sceneRect s')) (sceneBoundingRect item)) \<and>
      (\<forall>item \<in> set (items s'). isNode item \<longrightarrow>
         normLeft (testRect (sceneRect s')) \<le> normLeft (sceneBoundingRect item) \<and>
         normRight (sceneBoundingRect item) \<le> normRight (testRect (sceneRect s')) \<and>
         normTop (testRect (sceneRect s')) \<le> normTop (sceneBoundingRect item) \<and>
         normBottom (sceneBoundingRect item) \<le> normBottom (testRect (sceneRect s'))) \<and>
      testRect (sceneRect s') =
        \<lparr>xp = xp (sceneRect s') + wd (sceneRect s') * 0.25,
         yp = yp (sceneRect s') + ht (sceneRect s') * 0.25,
         wd = wd (sceneRect s') - 2 * (wd (sceneRect s') * 0.25),
         ht = ht (sceneRect s') - 2 * (ht (sceneRect s') * 0.25)\<rparr> \<and>
      items s' = items s) \<and>
   (0 < S \<longrightarrow>
      (\<forall>item \<in> set (items s). isNode item \<longrightarrow>
         wd (sceneBoundingRect item) \<noteq> 0 \<and> ht (sceneBoundingRect item) \<noteq> 0) \<longrightarrow>
      (\<exists>r. adjustSceneRect S s = Some r \<and>
         (\<forall>item \<in> set (items r). isNode item \<longrightarrow>
            contains (testRect (sceneRect r)) (sceneBoundingRect item))))"
proof (intro conjI impI)
  assume ret: "adjustSceneRect S s = Some s'"
  from adjustSceneRect_Some [OF ret] have c: "containsAll s'" and i: "items s' = items s"
    by simp_all
  from c show 1: "\<forall>item \<in> set (items s'). isNode item \<longrightarrow>
      contains (testRect (sceneRect s')) (sceneBoundingRect item)"
    by (simp add: containsAll_def containsAll_loop_iff)
  then show "\<forall>item \<in> set (items s'). isNode item \<longrightarrow>
      normLeft (testRect (sceneRect s')) \<le> normLeft (sceneBoundingRect item) \<and>
      normRight (sceneBoundingRect item) \<le> normRight (testRect (sceneRect s')) \<and>
      normTop (testRect (sceneRect s')) \<le> normTop (sceneBoundingRect item) \<and>
      normBottom (sceneBoundingRect item) \<le> normBottom (testRect (sceneRect s'))"
    by (simp add: contains_iff)
  show "testRect (sceneRect s') =
      \<lparr>xp = xp (sceneRect s') + wd (sceneRect s') * 0.25,
       yp = yp (sceneRect s') + ht (sceneRect s') * 0.25,
       wd = wd (sceneRect s') - 2 * (wd (sceneRect s') * 0.25),
       ht = ht (sceneRect s') - 2 * (ht (sceneRect s') * 0.25)\<rparr>"
    by (simp add: testRect_def adjusted_def Let_def)
  from i show "items s' = items s" .
next
  assume S: "0 < S"
    and nz: "\<forall>item \<in> set (items s). isNode item \<longrightarrow>
      wd (sceneBoundingRect item) \<noteq> 0 \<and> ht (sceneBoundingRect item) \<noteq> 0"
  from adjustSceneRect_returns [OF S nz] obtain n where
    "adjustSceneRect S s = Some ((grow S ^^ n) s)" "containsAll ((grow S ^^ n) s)"
    by blast
  then show "\<exists>r. adjustSceneRect S s = Some r \<and>
      (\<forall>item \<in> set (items r). isNode item \<longrightarrow>
         contains (testRect (sceneRect r)) (sceneBoundingRect item))"
    by (auto simp: containsAll_def containsAll_loop_iff)
qed

text \<open>Claim C4 at the scene with a node at 6000.\<close>

theorem adjustSceneRect_postcondition_witness:
  "adjustSceneRect 10000 farScene = Some (grow 10000 farScene) \<and>
   contains (testRect (sceneRect (grow 10000 farScene))) (sceneBoundingRect (nodeItem 0 6000 0 None)) \<and>
   testRect (sceneRect (grow 10000 farScene)) = \<lparr>xp = - 10000, yp = - 10000, wd = 20000, ht = 20000\<rparr> \<and>
   items (grow 10000 farScene) = items farScene \<and>
   (0::real) < 10000 \<and>
   wd (sceneBoundingRect (nodeItem 0 6000 0 None)) \<noteq> 0 \<and>
   ht (sceneBoundingRect (nodeItem 0 6000 0 None)) \<noteq> 0 \<and>
   (\<exists>r. adjustSceneRect 10000 farScene = Some r)"
proof -
  note h = adjustSceneRect_farScene
  note post = adjustSceneRect_postcondition [of 10000 farScene "grow 10000 farScene"]
  have mem: "nodeItem 0 6000 0 None \<in> set (items (grow 10000 farScene))"
    by (simp add: farScene_def grow_def)
  have isn: "isNode (nodeItem 0 6000 0 None)"
    by (simp add: isNode_def nodeItem_def)
  have pos: "(0::real) < 10000" by simp
  have nz: "\<forall>item \<in> set (items farScene). isNode item \<longrightarrow>
      wd (sceneBoundingRect item) \<noteq> 0 \<and> ht (sceneBoundingRect item) \<noteq> 0"
    by (simp add: farScene_def nodeItem_def edgeItem_def isNode_def)
  have nz': "wd (sceneBoundingRect (nodeItem 0 6000 0 None)) \<noteq> 0"
    "ht (sceneBoundingRect (nodeItem 0 6000 0 None)) \<noteq> 0"
    by (simp_all add: nodeItem_def)
  from post h mem isn
  have 1: "contains (testRect (sceneRect (grow 10000 farScene)))
             (sceneBoundingRect (nodeItem 0 6000 0 None))"
    by blast
  from post h
  have 2: "items (grow 10000 farScene) = items farScene"
    by blast
  have 3: "testRect (sceneRect (grow 10000 farScene)) =
             \<lparr>xp = - 10000, yp = - 10000, wd = 20000, ht = 20000\<rparr>"
    by (simp add: farScene_def grow_def EditorScene_def testRect_def adjusted_def Let_def)
  from post pos nz
  have 4: "\<exists>r. adjustSceneRect 10000 farScene = Some r"
    by blast
  from h 1 2 3 4 pos nz' show ?thesis by blast
qed

subsection \<open>The exports\<close>

lemma enableGraphicsEffects_twice:
  "enableGraphicsEffects b (enableGraphicsEffects c s) = enableGraphicsEffects b s"
  by (simp add: enableGraphicsEffects_def comp_def split: option.splits)

lemma enableGraphicsEffects_effects:
  "map graphicsEffect (items (enableGraphicsEffects b s)) =
     map (map_option (\<lambda>e. b)) (map graphicsEffect (items s))"
  by (simp add: enableGraphicsEffects_def comp_def split: option.splits)

lemma enableGraphicsEffects_frame:
  "map kind (items (enableGraphicsEffects b s)) = map kind (items s) \<and>
   map sceneBoundingRect (items (enableGraphicsEffects b s)) = map sceneBoundingRect (items s) \<and>
   sceneRect (enableGraphicsEffects b s) = sceneRect s"
  by (simp add: enableGraphicsEffects_def comp_def split: option.splits)

text \<open>Claim C6 as stated fails twice. An effect that was disabled before the export is
  enabled after it, so the prior state is not restored; and when painting throws, the
  function is left with every effect disabled.\<close>

theorem toSvg_restore_counterexample:
  "map graphicsEffect (items effectScene) = [Some False, Some True, None] \<and>
   fst (toSvg False desk effectScene ''/home/user/map.svg'' ''map'') = Inr () \<and>
   map graphicsEffect (items (fst (snd (toSvg False desk effectScene ''/home/user/map.svg'' ''map'')))) =
     [Some True, Some True, None] \<and>
   fst (toSvg True desk effectScene ''/home/user/map.svg'' ''map'') = Inl RenderFailure \<and>
   map graphicsEffect (items (fst (snd (toSvg True desk effectScene ''/home/user/map.svg'' ''map'')))) =
     [Some False, Some False, None]"
  by (simp add: toSvg_def Let_def enableGraphicsEffects_def effectScene_def desk_def
      nodeItem_def edgeItem_def EditorScene_def)

text \<open>Claim C6, amended: whenever \<open>toSvg\<close> returns, whether or not the file could be written,
  every graphics effect of the scene is enabled afterwards, whatever its state was before;
  nothing else of the scene changes; and what is written was painted with every effect
  disabled. When painting throws, the function is left with every effect disabled.\<close>

theorem toSvg_effects:
  "fst (toSvg False env s f t) = Inr () \<and>
   fst (snd (toSvg False env s f t)) = enableGraphicsEffects True s \<and>
   map graphicsEffect (items (fst (snd (toSvg False env s f t)))) =
     map (map_option (\<lambda>e. True)) (map graphicsEffect (items s)) \<and>
   map kind (items (fst (snd (toSvg False env s f t)))) = map kind (items s) \<and>
   map sceneBoundingRect (items (fst (snd (toSvg False env s f t)))) =
     map sceneBoundingRect (items s) \<and>
   sceneRect (fst (snd (toSvg False env s f t))) = sceneRect s \<and>
   (writable env f \<longrightarrow>
      (\<exists>g drawn. files (snd (snd (toSvg False env s f t))) f = Some (SvgFile g drawn) \<and>
         map graphicsEffect drawn = map (map_option (\<lambda>e. False)) (map graphicsEffect (items s)))) \<and>
   (\<not> writable env f \<longrightarrow> snd (snd (toSvg False env s f t)) = env) \<and>
   fst (toSvg True env s f t) = Inl RenderFailure \<and>
   map graphicsEffect (items (fst (snd (toSvg True env s f t)))) =
     map (map_option (\<lambda>e. False)) (map graphicsEffect (items s))"
proof -
  have 5: "fst (toSvg True env s f t) = Inl RenderFailure"
    by (simp add: toSvg_def Let_def)
  have 6: "map graphicsEffect (items (fst (snd (toSvg True env s f t)))) =
     map (map_option (\<lambda>e. False)) (map graphicsEffect (items s))"
    by (simp add: toSvg_def Let_def enableGraphicsEffects_effects)
  have 1: "fst (toSvg False env s f t) = Inr ()"
    by (simp add: toSvg_def Let_def)
  have 2: "fst (snd (toSvg False env s f t)) = enableGraphicsEffects True s"
    by (simp add: toSvg_def Let_def enableGraphicsEffects_twice)
  have 3: "writable env f \<longrightarrow>
      (\<exists>g drawn. files (snd (snd (toSvg False env s f t))) f = Some (SvgFile g drawn) \<and>
         map graphicsEffect drawn = map (map_option (\<lambda>e. False)) (map graphicsEffect (items s)))"
    by (simp add: toSvg_def Let_def enableGraphicsEffects_effects)
  have 4: "\<not> writable env f \<longrightarrow> snd (snd (toSvg False env s f t)) = env"
    by (simp add: toSvg_def Let_def)
  have 7: "map graphicsEffect (items (fst (snd (toSvg False env s f t)))) =
       map (map_option (\<lambda>e. True)) (map graphicsEffect (items s)) \<and>
     map kind (items (fst (snd (toSvg False env s f t)))) = map kind (items s) \<and>
     map sceneBoundingRect (items (fst (snd (toSvg False env s f t)))) =
       map sceneBoundingRect (items s) \<and>
     sceneRect (fst (snd (toSvg False env s f t))) = sceneRect s"
    unfolding 2 using enableGraphicsEffects_effects [of True s]
      enableGraphicsEffects_frame [of True s] by simp
  from 1 2 3 4 5 6 7 show ?thesis by blast
qed

text \<open>The amended claim C6 at a path that can be written and at one that cannot.\<close>

theorem toSvg_effects_witness:
  "writable desk ''/home/user/map.svg'' \<and>
   \<not> writable desk ''/readonly/map.svg'' \<and>
   map graphicsEffect (items (fst (snd (toSvg False desk effectScene ''/home/user/map.svg'' ''map'')))) =
     [Some True, Some True, None] \<and>
   map graphicsEffect (items (fst (snd (toSvg False desk effectScene ''/readonly/map.svg'' ''map'')))) =
     [Some True, Some True, None] \<and>
   (\<exists>g drawn. files (snd (snd (toSvg False desk effectScene ''/home/user/map.svg'' ''map'')))
       ''/home/user/map.svg'' = Some (SvgFile g drawn) \<and>
      map graphicsEffect drawn = [Some False, Some False, None]) \<and>
   snd (snd (toSvg False desk effectScene ''/readonly/map.svg'' ''map'')) = desk"
proof -
  have w: "writable desk ''/home/user/map.svg''" and r: "\<not> writable desk ''/readonly/map.svg''"
    by (simp_all add: desk_def)
  have e: "map graphicsEffect (items effectScene) = [Some False, Some True, None]"
    by (simp add: effectScene_def nodeItem_def edgeItem_def)
  have m: "map (map_option (\<lambda>e. True)) [Some False, Some True, None] = [Some True, Some True, None]"
    "map (map_option (\<lambda>e. False)) [Some False, Some True, None] = [Some False, Some False, None]"
    by simp_all
  from toSvg_effects [of desk effectScene "''/home/user/map.svg''" "''map''"]
    toSvg_effects [of desk effectScene "''/readonly/map.svg''" "''map''"] w r
  show ?thesis unfolding e m by blast
qed

text \<open>Claim C7 as stated fails: for a path that cannot be written \<open>toSvg\<close> returns as it does
  for one that can, with the same scene, and no file is written.\<close>

theorem toSvg_failure_counterexample:
  "\<not> writable desk ''/readonly/map.svg'' \<and>
   fst (toSvg False desk effectScene ''/readonly/map.svg'' ''map'') = Inr () \<and>
   files (snd (snd (toSvg False desk effectScene ''/readonly/map.svg'' ''map''))) ''/readonly/map.svg'' = None \<and>
   writable desk ''/home/user/map.svg'' \<and>
   fst (toSvg False desk effectScene ''/home/user/map.svg'' ''map'') = Inr () \<and>
   files (snd (snd (toSvg False desk effectScene ''/home/user/map.svg'' ''map''))) ''/home/user/map.svg'' \<noteq> None \<and>
   fst (snd (toSvg False desk effectScene ''/readonly/map.svg'' ''map'')) =
     fst (snd (toSvg False desk effectScene ''/home/user/map.svg'' ''map''))"
  by (simp add: toSvg_def Let_def desk_def)

text \<open>Claim C7, amended: \<open>toSvg\<close> is a \<open>void\<close> function and reports no failure. When painting
  does not throw, what it returns and the scene it leaves do not depend on the world or on
  the path; when the path cannot be written the world is left as it was.\<close>

theorem toSvg_reports_nothing:
  "fst (toSvg False env s f t) = Inr () \<and>
   fst (toSvg False env s f t) = fst (toSvg False env' s f' t') \<and>
   fst (snd (toSvg False env s f t)) = fst (snd (toSvg False env' s f' t')) \<and>
   (\<not> writable env f \<longrightarrow> snd (snd (toSvg False env s f t)) = env)"
  by (simp add: toSvg_def Let_def)

text \<open>The amended claim C7 at a path that cannot be written.\<close>

theorem toSvg_reports_nothing_witness:
  "\<not> writable desk ''/readonly/map.svg'' \<and>
   fst (toSvg False desk effectScene ''/readonly/map.svg'' ''map'') = Inr () \<and>
   fst (snd (toSvg False desk effectScene ''/readonly/map.svg'' ''map'')) =
     fst (snd (toSvg False desk effectScene ''/home/user/map.svg'' ''map'')) \<and>
   snd (snd (toSvg False desk effectScene ''/readonly/map.svg'' ''map'')) = desk"
proof -
  have r: "\<not> writable desk ''/readonly/map.svg''"
    by (simp add: desk_def)
  from toSvg_reports_nothing [of desk effectScene "''/readonly/map.svg''" "''map''" desk
      "''/home/user/map.svg''" "''map''"] r
  show ?thesis by blast
qed

lemma toImage_empty:
  "items s = [] \<Longrightarrow>
     pixels (toImage paint uninit s sz bg tb) =
       replicate (length (pixels (QImage uninit sz))) (if tb then transparent else bg)"
  by (simp add: toImage_def render_def fill_def Let_def map_replicate_const)

text \<open>Claim C8: \<open>toImage\<close> paints the scene onto an image filled with full transparency when
  \<open>transparentBackground\<close> is true and with the given colour otherwise. For an empty scene
  every pixel of the transparent image has alpha 0, and every pixel of the image filled
  with an opaque colour has alpha 255.\<close>

theorem toImage_background:
  "toImage paint uninit s sz bg tb =
     render paint s (fill (if tb then transparent else bg) (QImage uninit sz)) \<and>
   (\<forall>p \<in> set (pixels (fill (if tb then transparent else bg) (QImage uninit sz))).
      p = (if tb then transparent else bg)) \<and>
   (items s = [] \<longrightarrow>
      (\<forall>p \<in> set (pixels (toImage paint uninit s sz bg True)). alpha p = 0)) \<and>
   (items s = [] \<longrightarrow> alpha bg = 255 \<longrightarrow>
      (\<forall>p \<in> set (pixels (toImage paint uninit s sz bg False)). alpha p = 255)) \<and>
   (items s = [] \<longrightarrow> 0 < fst sz \<longrightarrow> 0 < snd sz \<longrightarrow>
      pixels (toImage paint uninit s sz bg tb) =
        replicate (nat (fst sz * snd sz)) (if tb then transparent else bg))"
proof -
  have 1: "toImage paint uninit s sz bg tb =
     render paint s (fill (if tb then transparent else bg) (QImage uninit sz))"
    by (simp add: toImage_def Let_def)
  have 2: "\<forall>p \<in> set (pixels (fill (if tb then transparent else bg) (QImage uninit sz))).
      p = (if tb then transparent else bg)"
    by (auto simp: fill_def)
  have 3: "items s = [] \<longrightarrow>
      (\<forall>p \<in> set (pixels (toImage paint uninit s sz bg True)). alpha p = 0)"
    by (auto simp: toImage_empty transparent_def)
  have 4: "items s = [] \<longrightarrow> alpha bg = 255 \<longrightarrow>
      (\<forall>p \<in> set (pixels (toImage paint uninit s sz bg False)). alpha p = 255)"
    by (auto simp: toImage_empty)
  have 5: "items s = [] \<longrightarrow> 0 < fst sz \<longrightarrow> 0 < snd sz \<longrightarrow>
      pixels (toImage paint uninit s sz bg tb) =
        replicate (nat (fst sz * snd sz)) (if tb then transparent else bg)"
    by (auto simp: toImage_empty QImage_def)
  from 1 2 3 4 5 show ?thesis by blast
qed

text \<open>Claim C8 at an empty scene and an image of two by two pixels.\<close>

theorem toImage_background_witness:
  "items (EditorScene 10000) = [] \<and> alpha grey = 255 \<and>
   pixels (toImage (\<lambda>item img. img) (\<lambda>i. grey) (EditorScene 10000) (2, 2) grey True) =
     [transparent, transparent, transparent, transparent] \<and>
   alpha transparent = 0 \<and>
   pixels (toImage (\<lambda>item img. img) (\<lambda>i. transparent) (EditorScene 10000) (2, 2) grey False) =
     [grey, grey, grey, grey]"
proof -
  have e: "items (EditorScene 10000) = []" by (simp add: EditorScene_def)
  have a: "alpha grey = 255" by (simp add: grey_def)
  have z: "alpha transparent = 0" by (simp add: transparent_def)
  have p: "(0::int) < fst (2, 2)" "(0::int) < snd (2, 2)" by simp_all
  have n: "replicate (nat (fst (2::int, 2::int) * snd (2::int, 2::int))) x = [x, x, x, x]"
    for x :: qcolor
    by (simp add: numeral_eq_Suc)
  from toImage_background [of "\<lambda>item img. img" "\<lambda>i. grey" "EditorScene 10000" "(2, 2)" grey True,
      unfolded if_True n]
    toImage_background [of "\<lambda>item img. img" "\<lambda>i. transparent" "EditorScene 10000" "(2, 2)" grey False,
      unfolded if_False n]
    e a p z
  show ?thesis by blast
qed

section \<open>Properties of the application\<close>

lemma doOpenMindMap_failed:
  "\<not> fst (opener fileName svc) \<Longrightarrow>
     doOpenMindMap opener fileName svc =
       ([ShowSpinnerDialog True (''Opening '' @ [CHR 0x27] @ fileName @ [CHR 0x27] @ ''..''),
         UpdateProgress, OpenMindMap fileName, ShowSpinnerDialog False [], UpdateProgress,
         Emit OpeningMindMapFailed],
        snd (opener fileName svc))"
  by (cases "opener fileName svc") (simp add: doOpenMindMap_def Let_def)

lemma doOpenMindMap_opened:
  "fst (opener fileName svc) \<Longrightarrow>
     doOpenMindMap opener fileName svc =
       ([ShowSpinnerDialog True (''Opening '' @ [CHR 0x27] @ fileName @ [CHR 0x27] @ ''..''),
         UpdateProgress, OpenMindMap fileName, DisableUndoAndRedo, UpdateProgress,
         SetSaveActionStatesOnOpenedMindMap, UpdateProgress, SaveRecentPath fileName,
         UpdateProgress, ShowSpinnerDialog False [], UpdateProgress, Emit MindMapOpened],
        snd (opener fileName svc))"
  by (cases "opener fileName svc") (simp add: doOpenMindMap_def Let_def)

text \<open>Claim C5: when \<open>openMindMap\<close> returns false, \<open>doOpenMindMap\<close> emits
  \<open>OpeningMindMapFailed\<close>, saves no recent path, sets no save-action states, does not
  disable undo and redo, and leaves the service as \<open>openMindMap\<close> left it; these calls are
  made when it returns true. With \<open>openMindMap\<close> as the spec describes it, a failed open
  leaves the document as it was.\<close>

theorem doOpenMindMap_failure_propagates:
  "(\<not> fst (opener fileName svc) \<longrightarrow>
      Emit OpeningMindMapFailed \<in> set (fst (doOpenMindMap opener fileName svc)) \<and>
      Emit MindMapOpened \<notin> set (fst (doOpenMindMap opener fileName svc)) \<and>
      (\<forall>path. SaveRecentPath path \<notin> set (fst (doOpenMindMap opener fileName svc))) \<and>
      SetSaveActionStatesOnOpenedMindMap \<notin> set (fst (doOpenMindMap opener fileName svc)) \<and>
      DisableUndoAndRedo \<notin> set (fst (doOpenMindMap opener fileName svc)) \<and>
      snd (doOpenMindMap opener fileName svc) = snd (opener fileName svc)) \<and>
   (fst (opener fileName svc) \<longrightarrow>
      Emit MindMapOpened \<in> set (fst (doOpenMindMap opener fileName svc)) \<and>
      Emit OpeningMindMapFailed \<notin> set (fst (doOpenMindMap opener fileName svc)) \<and>
      SaveRecentPath fileName \<in> set (fst (doOpenMindMap opener fileName svc)) \<and>
      SetSaveActionStatesOnOpenedMindMap \<in> set (fst (doOpenMindMap opener fileName svc)) \<and>
      snd (doOpenMindMap opener fileName svc) = snd (opener fileName svc)) \<and>
   (load fileName = None \<longrightarrow>
      Emit OpeningMindMapFailed \<in> set (fst (doOpenMindMap (openMindMap load) fileName document)) \<and>
      snd (doOpenMindMap (openMindMap load) fileName document) = document)"
proof -
  have 1: "\<not> fst (opener fileName svc) \<longrightarrow>
      Emit OpeningMindMapFailed \<in> set (fst (doOpenMindMap opener fileName svc)) \<and>
      Emit MindMapOpened \<notin> set (fst (doOpenMindMap opener fileName svc)) \<and>
      (\<forall>path. SaveRecentPath path \<notin> set (fst (doOpenMindMap opener fileName svc))) \<and>
      SetSaveActionStatesOnOpenedMindMap \<notin> set (fst (doOpenMindMap opener fileName svc)) \<and>
      DisableUndoAndRedo \<notin> set (fst (doOpenMindMap opener fileName svc)) \<and>
      snd (doOpenMindMap opener fileName svc) = snd (opener fileName svc)"
    by (simp add: doOpenMindMap_failed)
  have 2: "fst (opener fileName svc) \<longrightarrow>
      Emit MindMapOpened \<in> set (fst (doOpenMindMap opener fileName svc)) \<and>
      Emit OpeningMindMapFailed \<notin> set (fst (doOpenMindMap opener fileName svc)) \<and>
      SaveRecentPath fileName \<in> set (fst (doOpenMindMap opener fileName svc)) \<and>
      SetSaveActionStatesOnOpenedMindMap \<in> set (fst (doOpenMindMap opener fileName svc)) \<and>
      snd (doOpenMindMap opener fileName svc) = snd (opener fileName svc)"
    by (simp add: doOpenMindMap_opened)
  have 3: "load fileName = None \<longrightarrow>
      Emit OpeningMindMapFailed \<in> set (fst (doOpenMindMap (openMindMap load) fileName document)) \<and>
      snd (doOpenMindMap (openMindMap load) fileName document) = document"
  proof
    assume n: "load fileName = None"
    then have "\<not> fst (openMindMap load fileName document)"
      by (simp add: openMindMap_def)
    from doOpenMindMap_failed [of "openMindMap load" fileName document, OF this] n
    show "Emit OpeningMindMapFailed \<in> set (fst (doOpenMindMap (openMindMap load) fileName document)) \<and>
      snd (doOpenMindMap (openMindMap load) fileName document) = document"
      by (simp add: openMindMap_def)
  qed
  from 1 2 3 show ?thesis by blast
qed

text \<open>Claim C5 at a file that is missing and at one that can be read.\<close>

theorem doOpenMindMap_failure_propagates_witness:
  "disk ''/home/user/gone.alz'' = None \<and>
   \<not> fst (openMindMap disk ''/home/user/gone.alz'' draft) \<and>
   fst (openMindMap disk ''/home/user/plan.alz'' draft) \<and>
   Emit OpeningMindMapFailed \<in> set (fst (doOpenMindMap (openMindMap disk) ''/home/user/gone.alz'' draft)) \<and>
   SaveRecentPath ''/home/user/gone.alz'' \<notin>
     set (fst (doOpenMindMap (openMindMap disk) ''/home/user/gone.alz'' draft)) \<and>
   SetSaveActionStatesOnOpenedMindMap \<notin>
     set (fst (doOpenMindMap (openMindMap disk) ''/home/user/gone.alz'' draft)) \<and>
   snd (doOpenMindMap (openMindMap disk) ''/home/user/gone.alz'' draft) = draft \<and>
   SaveRecentPath ''/home/user/plan.alz'' \<in>
     set (fst (doOpenMindMap (openMindMap disk) ''/home/user/plan.alz'' draft)) \<and>
   Emit MindMapOpened \<in> set (fst (doOpenMindMap (openMindMap disk) ''/home/user/plan.alz'' draft))"
proof -
  have n: "disk ''/home/user/gone.alz'' = None"
    by (simp add: disk_def)
  have f: "\<not> fst (openMindMap disk ''/home/user/gone.alz'' draft)"
    by (simp add: openMindMap_def disk_def)
  have s: "fst (openMindMap disk ''/home/user/plan.alz'' draft)"
    by (simp add: openMindMap_def disk_def)
  from doOpenMindMap_failure_propagates
         [of "openMindMap disk" "''/home/user/gone.alz''" draft disk draft]
    doOpenMindMap_failure_propagates
         [of "openMindMap disk" "''/home/user/plan.alz''" draft disk draft]
    n f s
  show ?thesis by blast
qed

lemma clearGroup_forced:
  "clearGroup True g = (if implicit g then \<lparr>members = [], implicit = False\<rparr> else g)"
  by (simp add: clearGroup_def)

text \<open>Claim C9: when the edge, node or text colour dialog is not accepted, the matching
  clearing function is called once, with the flag true; when it is accepted no clearing
  function is called and the service is unchanged. With the clearing functions as the spec
  describes them, a cancelled dialog leaves a selection the user made as it was and
  empties an implicit one.\<close>

theorem colorDialog_cancel_clears_implicit:
  "(execResult \<noteq> Accepted \<longrightarrow>
      fst (showEdgeColorDialog clearEdge execResult svc) =
        [ExecSceneColorDialog Edge, ClearEdgeSelectionGroup True, Emit EdgeColorChanged] \<and>
      snd (showEdgeColorDialog clearEdge execResult svc) = clearEdge True svc \<and>
      fst (showNodeColorDialog clearNode execResult svc) =
        [ExecSceneColorDialog Node, ClearNodeSelectionGroup True, Emit NodeColorChanged] \<and>
      snd (showNodeColorDialog clearNode execResult svc) = clearNode True svc \<and>
      fst (showTextColorDialog clearNode execResult svc) =
        [ExecSceneColorDialog Text, ClearNodeSelectionGroup True, Emit TextColorChanged] \<and>
      snd (showTextColorDialog clearNode execResult svc) = clearNode True svc) \<and>
   (execResult = Accepted \<longrightarrow>
      (\<forall>forced. ClearEdgeSelectionGroup forced \<notin> set (fst (showEdgeColorDialog clearEdge execResult svc)) \<and>
                ClearNodeSelectionGroup forced \<notin> set (fst (showEdgeColorDialog clearEdge execResult svc)) \<and>
                ClearEdgeSelectionGroup forced \<notin> set (fst (showNodeColorDialog clearNode execResult svc)) \<and>
                ClearNodeSelectionGroup forced \<notin> set (fst (showNodeColorDialog clearNode execResult svc)) \<and>
                ClearEdgeSelectionGroup forced \<notin> set (fst (showTextColorDialog clearNode execResult svc)) \<and>
                ClearNodeSelectionGroup forced \<notin> set (fst (showTextColorDialog clearNode execResult svc))) \<and>
      snd (showEdgeColorDialog clearEdge execResult svc) = svc \<and>
      snd (showNodeColorDialog clearNode execResult svc) = svc \<and>
      snd (showTextColorDialog clearNode execResult svc) = svc) \<and>
   (execResult \<noteq> Accepted \<longrightarrow> \<not> implicit (nodeSelectionGroup sel) \<longrightarrow>
      snd (showNodeColorDialog clearNodeSelectionGroup execResult sel) = sel \<and>
      snd (showTextColorDialog clearNodeSelectionGroup execResult sel) = sel) \<and>
   (execResult \<noteq> Accepted \<longrightarrow> \<not> implicit (edgeSelectionGroup sel) \<longrightarrow>
      snd (showEdgeColorDialog clearEdgeSelectionGroup execResult sel) = sel) \<and>
   (execResult \<noteq> Accepted \<longrightarrow> implicit (nodeSelectionGroup sel) \<longrightarrow>
      members (nodeSelectionGroup (snd (showNodeColorDialog clearNodeSelectionGroup execResult sel))) = [] \<and>
      members (nodeSelectionGroup (snd (showTextColorDialog clearNodeSelectionGroup execResult sel))) = [] \<and>
      edgeSelectionGroup (snd (showNodeColorDialog clearNodeSelectionGroup execResult sel)) =
        edgeSelectionGroup sel \<and>
      edgeSelectionGroup (snd (showTextColorDialog clearNodeSelectionGroup execResult sel)) =
        edgeSelectionGroup sel) \<and>
   (execResult \<noteq> Accepted \<longrightarrow> implicit (edgeSelectionGroup sel) \<longrightarrow>
      members (edgeSelectionGroup (snd (showEdgeColorDialog clearEdgeSelectionGroup execResult sel))) = [] \<and>
      nodeSelectionGroup (snd (showEdgeColorDialog clearEdgeSelectionGroup execResult sel)) =
        nodeSelectionGroup sel)"
proof -
  have 1: "execResult \<noteq> Accepted \<longrightarrow>
      fst (showEdgeColorDialog clearEdge execResult svc) =
        [ExecSceneColorDialog Edge, ClearEdgeSelectionGroup True, Emit EdgeColorChanged] \<and>
      snd (showEdgeColorDialog clearEdge execResult svc) = clearEdge True svc \<and>
      fst (showNodeColorDialog clearNode execResult svc) =
        [ExecSceneColorDialog Node, ClearNodeSelectionGroup True, Emit NodeColorChanged] \<and>
      snd (showNodeColorDialog clearNode execResult svc) = clearNode True svc \<and>
      fst (showTextColorDialog clearNode execResult svc) =
        [ExecSceneColorDialog Text, ClearNodeSelectionGroup True, Emit TextColorChanged] \<and>
      snd (showTextColorDialog clearNode execResult svc) = clearNode True svc"
    by (simp add: showEdgeColorDialog_def showNodeColorDialog_def showTextColorDialog_def)
  have 2: "execResult = Accepted \<longrightarrow>
      (\<forall>forced. ClearEdgeSelectionGroup forced \<notin> set (fst (showEdgeColorDialog clearEdge execResult svc)) \<and>
                ClearNodeSelectionGroup forced \<notin> set (fst (showEdgeColorDialog clearEdge execResult svc)) \<and>
                ClearEdgeSelectionGroup forced \<notin> set (fst (showNodeColorDialog clearNode execResult svc)) \<and>
                ClearNodeSelectionGroup forced \<notin> set (fst (showNodeColorDialog clearNode execResult svc)) \<and>
                ClearEdgeSelectionGroup forced \<notin> set (fst (showTextColorDialog clearNode execResult svc)) \<and>
                ClearNodeSelectionGroup forced \<notin> set (fst (showTextColorDialog clearNode execResult svc))) \<and>
      snd (showEdgeColorDialog clearEdge execResult svc) = svc \<and>
      snd (showNodeColorDialog clearNode execResult svc) = svc \<and>
      snd (showTextColorDialog clearNode execResult svc) = svc"
    by (simp add: showEdgeColorDialog_def showNodeColorDialog_def showTextColorDialog_def)
  have 3: "execResult \<noteq> Accepted \<longrightarrow> \<not> implicit (nodeSelectionGroup sel) \<longrightarrow>
      snd (showNodeColorDialog clearNodeSelectionGroup execResult sel) = sel \<and>
      snd (showTextColorDialog clearNodeSelectionGroup execResult sel) = sel"
    by (simp add: showNodeColorDialog_def showTextColorDialog_def clearNodeSelectionGroup_def
        clearGroup_forced)
  have 4: "execResult \<noteq> Accepted \<longrightarrow> \<not> implicit (edgeSelectionGroup sel) \<longrightarrow>
      snd (showEdgeColorDialog clearEdgeSelectionGroup execResult sel) = sel"
    by (simp add: showEdgeColorDialog_def clearEdgeSelectionGroup_def clearGroup_forced)
  have 5: "execResult \<noteq> Accepted \<longrightarrow> implicit (nodeSelectionGroup sel) \<longrightarrow>
      members (nodeSelectionGroup (snd (showNodeColorDialog clearNodeSelectionGroup execResult sel))) = [] \<and>
      members (nodeSelectionGroup (snd (showTextColorDialog clearNodeSelectionGroup execResult sel))) = [] \<and>
      edgeSelectionGroup (snd (showNodeColorDialog clearNodeSelectionGroup execResult sel)) =
        edgeSelectionGroup sel \<and>
      edgeSelectionGroup (snd (showTextColorDialog clearNodeSelectionGroup execResult sel)) =
        edgeSelectionGroup sel"
    by (simp add: showNodeColorDialog_def showTextColorDialog_def clearNodeSelectionGroup_def
        clearGroup_forced)
  have 6: "execResult \<noteq> Accepted \<longrightarrow> implicit (edgeSelectionGroup sel) \<longrightarrow>
      members (edgeSelectionGroup (snd (showEdgeColorDialog clearEdgeSelectionGroup execResult sel))) = [] \<and>
      nodeSelectionGroup (snd (showEdgeColorDialog clearEdgeSelectionGroup execResult sel)) =
        nodeSelectionGroup sel"
    by (simp add: showEdgeColorDialog_def clearEdgeSelectionGroup_def clearGroup_forced)
  from 1 2 3 4 5 6 show ?thesis by blast
qed

text \<open>Claim C9 at a selection with a user-made node group and an implicit edge group.\<close>

theorem colorDialog_cancel_clears_implicit_witness:
  "(0::int) \<noteq> Accepted \<and> (1::int) = Accepted \<and>
   \<not> implicit (nodeSelectionGroup picked) \<and> implicit (edgeSelectionGroup picked) \<and>
   implicit (nodeSelectionGroup touched) \<and> \<not> implicit (edgeSelectionGroup touched) \<and>
   fst (showNodeColorDialog clearNodeSelectionGroup 0 picked) =
     [ExecSceneColorDialog Node, ClearNodeSelectionGroup True, Emit NodeColorChanged] \<and>
   snd (showNodeColorDialog clearNodeSelectionGroup 0 picked) = picked \<and>
   snd (showTextColorDialog clearNodeSelectionGroup 0 picked) = picked \<and>
   members (edgeSelectionGroup (snd (showEdgeColorDialog clearEdgeSelectionGroup 0 picked))) = [] \<and>
   nodeSelectionGroup (snd (showEdgeColorDialog clearEdgeSelectionGroup 0 picked)) =
     nodeSelectionGroup picked \<and>
   snd (showEdgeColorDialog clearEdgeSelectionGroup 0 touched) = touched \<and>
   members (nodeSelectionGroup (snd (showNodeColorDialog clearNodeSelectionGroup 0 touched))) = [] \<and>
   edgeSelectionGroup (snd (showNodeColorDialog clearNodeSelectionGroup 0 touched)) =
     edgeSelectionGroup touched \<and>
   snd (showEdgeColorDialog clearEdgeSelectionGroup 1 picked) = picked \<and>
   ClearEdgeSelectionGroup True \<notin> set (fst (showEdgeColorDialog clearEdgeSelectionGroup 1 picked))"
proof -
  have c: "(0::int) \<noteq> Accepted" and a: "(1::int) = Accepted"
    by (simp_all add: Accepted_def)
  have n: "\<not> implicit (nodeSelectionGroup picked)" and e: "implicit (edgeSelectionGroup picked)"
    by (simp_all add: picked_def)
  have n': "implicit (nodeSelectionGroup touched)" and e': "\<not> implicit (edgeSelectionGroup touched)"
    by (simp_all add: touched_def)
  from colorDialog_cancel_clears_implicit
         [of 0 clearEdgeSelectionGroup picked clearNodeSelectionGroup picked]
    colorDialog_cancel_clears_implicit
         [of 0 clearEdgeSelectionGroup touched clearNodeSelectionGroup touched]
    colorDialog_cancel_clears_implicit
         [of 1 clearEdgeSelectionGroup picked clearNodeSelectionGroup picked]
    c a n e n' e'
  show ?thesis by blast
qed

section \<open>Properties of the history\<close>











end
